theory Spec2Isabelle
  imports Complex_Main
begin

section \<open>JavaScript values shared by the modules\<close>

text \<open>
  Everything the sources throw is an instance of \<^verbatim>\<open>Error\<close>: plain errors made with
  \<^verbatim>\<open>new Error(message)\<close>, the runtime's \<^verbatim>\<open>TypeError\<close>, and the \<^verbatim>\<open>HttpError\<close> class of
  \<^verbatim>\<open>http-client.ts\<close>, which adds the HTTP status and the raw response body.
\<close>

datatype js_error =
    Error string
  | TypeError string
  | HttpError string nat string

fun message :: "js_error \<Rightarrow> string" where
  "message (Error m) = m"
| "message (TypeError m) = m"
| "message (HttpError m st body) = m"

text \<open>
  A JSON value. A number is carried as its JavaScript rendering: for every finite number
  \<^verbatim>\<open>String(n)\<close> and \<^verbatim>\<open>JSON.stringify(n)\<close> are the same text, and the sources only test
  numbers with \<^verbatim>\<open>typeof\<close> and pass them on. An object is the list of its own properties
  in enumeration order. \<^verbatim>\<open>undefined\<close> is not a JSON value: a property that may be
  \<^verbatim>\<open>undefined\<close> is an \<open>option\<close>.
\<close>

datatype json =
    JNull
  | JBool bool
  | JNum string
  | JStr string
  | JArr "json list"
  | JObj "(string \<times> json) list"

subsection \<open>Decimal and hexadecimal digits\<close>

definition digit_char :: "nat \<Rightarrow> char" where
  "digit_char d = (if d < 16 then ''0123456789abcdef'' ! d else CHR ''?'')"

function show_nat :: "nat \<Rightarrow> string" where
  "show_nat n = (if n < 10 then [digit_char n] else show_nat (n div 10) @ [digit_char (n mod 10)])"
  by pat_completeness auto
termination
  by (relation "measure id") auto

declare show_nat.simps [simp del]

subsection \<open>\<^verbatim>\<open>JSON.stringify(value, null, gap)\<close>\<close>

text \<open>
  The string quoting of \<^verbatim>\<open>JSON.stringify\<close>: the two-character escapes, \<^verbatim>\<open>\u00XX\<close> for the
  other control characters, every other character as it is.
\<close>

definition quote_char :: "char \<Rightarrow> string" where
  "quote_char c =
     (let n = of_char c :: nat in
      if n = 0x08 then [CHR 0x5C, CHR ''b'']
      else if n = 0x09 then [CHR 0x5C, CHR ''t'']
      else if n = 0x0A then [CHR 0x5C, CHR ''n'']
      else if n = 0x0C then [CHR 0x5C, CHR ''f'']
      else if n = 0x0D then [CHR 0x5C, CHR ''r'']
      else if n = 0x22 then [CHR 0x5C, CHR 0x22]
      else if n = 0x5C then [CHR 0x5C, CHR 0x5C]
      else if n < 0x20 then [CHR 0x5C, CHR ''u'', CHR ''0'', CHR ''0'', digit_char (n div 16), digit_char (n mod 16)]
      else [c])"

definition Quote :: "string \<Rightarrow> string" where
  "Quote s = [CHR 0x22] @ concat (map quote_char s) @ [CHR 0x22]"

fun join :: "string \<Rightarrow> string list \<Rightarrow> string" where
  "join sep [] = []"
| "join sep [x] = x"
| "join sep (x # y # ys) = x @ sep @ join sep (y # ys)"

text \<open>
  \<open>wrap open close gap indent partial\<close> is the common tail of SerializeJSONObject and
  SerializeJSONArray: \<open>indent\<close> is the indentation of the enclosing value and \<open>partial\<close>
  the serialized members.
\<close>

definition wrap :: "string \<Rightarrow> string \<Rightarrow> string \<Rightarrow> string \<Rightarrow> string list \<Rightarrow> string" where
  "wrap opn cls gap indent partial =
     (if partial = [] then opn @ cls
      else if gap = [] then opn @ join '','' partial @ cls
      else opn @ ''\<newline>'' @ (indent @ gap) @ join ('','' @ ''\<newline>'' @ (indent @ gap)) partial
           @ ''\<newline>'' @ indent @ cls)"

fun stringify :: "string \<Rightarrow> string \<Rightarrow> json \<Rightarrow> string" where
  "stringify gap indent JNull = ''null''"
| "stringify gap indent (JBool b) = (if b then ''true'' else ''false'')"
| "stringify gap indent (JNum n) = n"
| "stringify gap indent (JStr s) = Quote s"
| "stringify gap indent (JArr xs) =
     wrap ''['' '']'' gap indent (map (stringify gap (indent @ gap)) xs)"
| "stringify gap indent (JObj ps) =
     wrap ''{'' ''}'' gap indent
       (map (\<lambda>(k, v). Quote k @ '':'' @ (if gap = [] then [] else '' '') @ stringify gap (indent @ gap) v) ps)"

definition JSON_stringify :: "json \<Rightarrow> string" where
  "JSON_stringify v = stringify [] [] v"

section \<open>The session transport (\<^verbatim>\<open>NextJsSseTransport\<close>)\<close>

text \<open>
  The writer of the response's \<^verbatim>\<open>TransformStream\<close>. Its stream is \<open>Writable\<close> when the
  writer is acquired; \<^verbatim>\<open>close()\<close> on the writer makes it \<open>Closed\<close>; the stream becomes
  \<open>Errored\<close> from outside the transport (the client cancels the readable side). A writer
  rejects \<^verbatim>\<open>write\<close> and \<^verbatim>\<open>close\<close> on a stream that is not writable.
\<close>

datatype stream_state = Writable | Closed | Errored js_error

text \<open>
  What an operation of the transport does to the outside: a chunk written to the sink,
  the sink closed, a message handed to the protocol runtime's handler.
\<close>

datatype effect = SinkWrite string | SinkClose | HandlerCall json

record transport =
  writer :: "stream_state option"
  messageHandler :: "(json \<Rightarrow> js_error + unit) option"

type_synonym outcome = "(js_error + unit) \<times> transport \<times> effect list"

definition new_transport :: transport where
  "new_transport = \<lparr> writer = None, messageHandler = None \<rparr>"

definition writer_write :: "stream_state \<Rightarrow> js_error + unit" where
  "writer_write s =
     (case s of
        Writable \<Rightarrow> Inr ()
      | Closed \<Rightarrow> Inl (TypeError ''Invalid state: WritableStream is closed'')
      | Errored e \<Rightarrow> Inl e)"

definition writer_close :: "stream_state \<Rightarrow> js_error + stream_state" where
  "writer_close s =
     (case s of
        Writable \<Rightarrow> Inr Closed
      | Closed \<Rightarrow> Inl (TypeError ''Invalid state: WritableStream is closed'')
      | Errored e \<Rightarrow> Inl e)"

definition NotInitialized :: js_error where
  "NotInitialized = Error ''Transport not initialized with a response stream writer''"

definition ChannelClosed :: js_error where
  "ChannelClosed = Error ''Transport not active or writer closed''"

definition start :: "transport \<Rightarrow> js_error + unit" where
  "start t = (if writer t = None then Inl NotInitialized else Inr ())"


definition initResponseStream :: "transport \<Rightarrow> transport" where
  "initResponseStream t = t\<lparr> writer := Some Writable \<rparr>"

definition send :: "transport \<Rightarrow> json \<Rightarrow> outcome" where
  "send t msg =
     (case writer t of
        None \<Rightarrow> (Inl ChannelClosed, t, [])
      | Some w \<Rightarrow>
          (let event = ''message'';
               data = JSON_stringify msg;
               payload = ''event: '' @ event @ ''\<newline>'' @ ''data: '' @ data @ ''\<newline>'' @ ''\<newline>''
           in case writer_write w of
                Inl e \<Rightarrow> (Inl e, t, [])
              | Inr u \<Rightarrow> (Inr (), t, [SinkWrite payload])))"

definition sendEndpoint :: "transport \<Rightarrow> string \<Rightarrow> outcome" where
  "sendEndpoint t endpoint =
     (case writer t of
        None \<Rightarrow> (Inl ChannelClosed, t, [])
      | Some w \<Rightarrow>
          (let event = ''endpoint'';
               payload = ''event: '' @ event @ ''\<newline>'' @ ''data: '' @ endpoint @ ''\<newline>'' @ ''\<newline>''
           in case writer_write w of
                Inl e \<Rightarrow> (Inl e, t, [])
              | Inr u \<Rightarrow> (Inr (), t, [SinkWrite payload])))"

definition close :: "transport \<Rightarrow> outcome" where
  "close t =
     (case writer t of
        None \<Rightarrow> (Inr (), t, [])
      | Some w \<Rightarrow>
          (case writer_close w of
             Inl e \<Rightarrow> (Inl e, t, [])
           | Inr w' \<Rightarrow> (Inr (), t\<lparr> writer := None \<rparr>, [SinkClose])))"

definition handlePostMessage :: "transport \<Rightarrow> json \<Rightarrow> outcome" where
  "handlePostMessage t msg =
     (case messageHandler t of
        None \<Rightarrow> (Inr (), t, [])
      | Some handler \<Rightarrow> (handler msg, t, [HandlerCall msg]))"


section \<open>The session directory and the stateless message endpoint\<close>

text \<open>
  \<^verbatim>\<open>activeTransports\<close> is a \<^verbatim>\<open>Map<string, NextJsSseTransport>\<close>, created empty with the
  process. The directory holds, for each session id, the transport registered under it.
\<close>

type_synonym directory = "string \<rightharpoonup> transport"

definition activeTransports_set :: "directory \<Rightarrow> string \<Rightarrow> transport \<Rightarrow> directory" where
  "activeTransports_set m sessionId t = m(sessionId \<mapsto> t)"

definition activeTransports_get :: "directory \<Rightarrow> string \<Rightarrow> transport option" where
  "activeTransports_get m sessionId = m sessionId"

definition activeTransports_delete :: "directory \<Rightarrow> string \<Rightarrow> directory" where
  "activeTransports_delete m sessionId = m(sessionId := None)"

text \<open>
  The directory is written at two places only: the channel-open handler registers the new
  transport under its session id, and the request's \<^verbatim>\<open>close\<close> event removes the id. A
  history of the directory is the list of these events, oldest first.
\<close>

datatype dir_event = ChannelOpen string transport | ChannelClose string

fun dir_step :: "directory \<Rightarrow> dir_event \<Rightarrow> directory" where
  "dir_step m (ChannelOpen sessionId t) = activeTransports_set m sessionId t"
| "dir_step m (ChannelClose sessionId) = activeTransports_delete m sessionId"

definition dir_after :: "dir_event list \<Rightarrow> directory" where
  "dir_after evs = foldl dir_step Map.empty evs"

fun opened_ids :: "dir_event list \<Rightarrow> string list" where
  "opened_ids [] = []"
| "opened_ids (ChannelOpen sessionId t # evs) = sessionId # opened_ids evs"
| "opened_ids (ChannelClose sessionId # evs) = opened_ids evs"

text \<open>
  A POST to the message endpoint, as the handlers read it: the \<^verbatim>\<open>authorization\<close> header,
  the \<^verbatim>\<open>sessionId\<close> query parameter, and the body (\<^verbatim>\<open>req.json()\<close> gives the parsed
  message or throws on a body that is not JSON). \<^verbatim>\<open>authenticateApiKey\<close> is imported from
  \<^verbatim>\<open>lib/api-auth\<close>; it is a parameter here, returning the authenticated user or the error
  it throws on a credential it rejects.
\<close>

record post_request =
  authorization :: "string option"
  sessionId :: "string option"
  body :: "js_error + json"

record http_response =
  status :: nat
  sent :: string

definition respond :: "string \<Rightarrow> nat \<Rightarrow> effect list \<Rightarrow> http_response \<times> effect list" where
  "respond txt code fx = (\<lparr> status = code, sent = txt \<rparr>, fx)"

text \<open>\<^verbatim>\<open>POST\<close> of the Next.js route (\<^verbatim>\<open>api/route.ts\<close>): everything runs inside one \<^verbatim>\<open>try\<close>.\<close>

definition POST ::
  "(string \<Rightarrow> js_error + 'u) \<Rightarrow> directory \<Rightarrow> post_request \<Rightarrow> http_response \<times> effect list" where
  "POST authenticateApiKey activeTransports req =
     (case authorization req of
        None \<Rightarrow> respond ''Unauthorized'' 401 []
      | Some authHeader \<Rightarrow>
          if authHeader = [] then respond ''Unauthorized'' 401 []
          else
            (case authenticateApiKey authHeader of
               Inl e \<Rightarrow> respond ''Internal Error'' 500 []
             | Inr user \<Rightarrow>
                 (case body req of
                    Inl e \<Rightarrow> respond ''Internal Error'' 500 []
                  | Inr msg \<Rightarrow>
                      (case sessionId req of
                         None \<Rightarrow> respond ''Missing sessionId'' 400 []
                       | Some sid \<Rightarrow>
                           if sid = [] then respond ''Missing sessionId'' 400 []
                           else
                             (case activeTransports_get activeTransports sid of
                                None \<Rightarrow>
                                  respond ''Session not found (Serverless limitation: ensure single instance)'' 404 []
                              | Some t \<Rightarrow>
                                  (case handlePostMessage t msg of
                                     (Inl e, t', fx) \<Rightarrow> respond ''Internal Error'' 500 fx
                                   | (Inr u, t', fx) \<Rightarrow> respond ''Accepted'' 202 fx))))))"

text \<open>
  \<^verbatim>\<open>app.post("/api/mcp")\<close> of the standalone Express server: the header check stands
  before the \<^verbatim>\<open>try\<close>, and the body was parsed by the \<^verbatim>\<open>express.json()\<close> middleware
  before the handler runs. The query parameter is read as a string (one \<^verbatim>\<open>sessionId\<close> in
  the query).
\<close>

definition app_post ::
  "(string \<Rightarrow> js_error + 'u) \<Rightarrow> directory \<Rightarrow> string option \<Rightarrow> string option \<Rightarrow> json
     \<Rightarrow> http_response \<times> effect list" where
  "app_post authenticateApiKey activeTransports authorization_header sessionId_param req_body =
     (case authorization_header of
        None \<Rightarrow> respond ''Unauthorized'' 401 []
      | Some authHeader \<Rightarrow>
          if authHeader = [] then respond ''Unauthorized'' 401 []
          else
            (case authenticateApiKey authHeader of
               Inl e \<Rightarrow> respond ''Internal Error'' 500 []
             | Inr user \<Rightarrow>
                 (case sessionId_param of
                    None \<Rightarrow> respond ''Missing sessionId'' 400 []
                  | Some sid \<Rightarrow>
                      if sid = [] then respond ''Missing sessionId'' 400 []
                      else
                        (case activeTransports_get activeTransports sid of
                           None \<Rightarrow> respond ''Session not found'' 404 []
                         | Some t \<Rightarrow>
                             (case handlePostMessage t req_body of
                                (Inl e, t', fx) \<Rightarrow> respond ''Internal Error'' 500 fx
                              | (Inr u, t', fx) \<Rightarrow> respond ''Accepted'' 202 fx)))))"

text \<open>
  An authenticator for concrete requests: it accepts one credential and throws on every
  other, as \<^verbatim>\<open>authenticateApiKey\<close> does on an invalid key.
\<close>

definition sample_authenticateApiKey :: "string \<Rightarrow> js_error + string" where
  "sample_authenticateApiKey authHeader =
     (if authHeader = ''Bearer valid-key'' then Inr ''user-1'' else Inl (Error ''Invalid API key''))"

section \<open>Transcript export (\<^verbatim>\<open>transcript-formatter.ts\<close>)\<close>

text \<open>
  Segment times are JavaScript numbers (IEEE doubles). Their arithmetic is not redone
  here: the operations the formatter uses are the fields of \<open>number_ops\<close>, and every
  definition below takes them as a parameter. \<open>lit\<close> gives the value of a numeric literal,
  \<open>toString\<close> is \<^verbatim>\<open>Number.prototype.toString\<close>, \<open>truthy\<close> is the truth value of a number in a
  condition (neither zero nor NaN).
\<close>

record 'n number_ops =
  lit :: "nat \<Rightarrow> 'n"
  divide :: "'n \<Rightarrow> 'n \<Rightarrow> 'n"
  remainder :: "'n \<Rightarrow> 'n \<Rightarrow> 'n"
  times :: "'n \<Rightarrow> 'n \<Rightarrow> 'n"
  Math_floor :: "'n \<Rightarrow> 'n"
  toString :: "'n \<Rightarrow> string"
  truthy :: "'n \<Rightarrow> bool"
















section \<open>Result envelopes\<close>

text \<open>
  The result of a tool call: a list of content blocks and the \<^verbatim>\<open>isError\<close> flag, which is
  absent (\<open>None\<close>) where the source leaves it out.
\<close>

record content_block =
  c_type :: string
  c_text :: string

record envelope =
  content :: "content_block list"
  isError :: "bool option"

definition text_result :: "string \<Rightarrow> envelope" where
  "text_result txt = \<lparr> content = [\<lparr> c_type = ''text'', c_text = txt \<rparr>], isError = None \<rparr>"

definition error_result :: "string \<Rightarrow> envelope" where
  "error_result txt = \<lparr> content = [\<lparr> c_type = ''text'', c_text = txt \<rparr>], isError = Some True \<rparr>"

section \<open>The \<^verbatim>\<open>create_transcript\<close> tool (\<^verbatim>\<open>server.ts\<close>)\<close>

subsection \<open>Extracting the video id\<close>

definition is_id_char :: "char \<Rightarrow> bool" where
  "is_id_char c =
     (c \<in> set (''abcdefghijklmnopqrstuvwxyz'' @ ''ABCDEFGHIJKLMNOPQRSTUVWXYZ'' @ ''0123456789'' @ ''_-''))"

text \<open>
  Each of the three patterns is a choice of literal prefixes followed by the group
  \<^verbatim>\<open>([a-zA-Z0-9_-]{11})\<close>. \<open>match_here\<close> matches one literal and the group at the start of
  \<open>s\<close> and gives the group; \<open>alternatives_here\<close> tries the literals in order;
  \<open>regex_match\<close> is \<^verbatim>\<open>String.prototype.match\<close> for such a pattern without flags: the match
  at the leftmost position, and of it the group.
\<close>

definition match_here :: "string \<Rightarrow> string \<Rightarrow> string option" where
  "match_here literal s =
     (let rest = drop (length literal) s; grp = take 11 rest
      in if take (length literal) s = literal \<and> length grp = 11 \<and> list_all is_id_char grp
         then Some grp else None)"

fun alternatives_here :: "string list \<Rightarrow> string \<Rightarrow> string option" where
  "alternatives_here [] s = None"
| "alternatives_here (literal # literals) s =
     (case match_here literal s of Some grp \<Rightarrow> Some grp | None \<Rightarrow> alternatives_here literals s)"

fun regex_match :: "string list \<Rightarrow> string \<Rightarrow> string option" where
  "regex_match literals [] = alternatives_here literals []"
| "regex_match literals (c # cs) =
     (case alternatives_here literals (c # cs) of
        Some grp \<Rightarrow> Some grp
      | None \<Rightarrow> regex_match literals cs)"

definition patterns :: "string list list" where
  "patterns =
     [[''youtube.com/watch?v='', ''youtu.be/''],
      [''youtube.com/embed/''],
      [''youtube.com/v/'']]"

text \<open>The loop over the patterns: the first pattern that matches sets \<open>videoId\<close> and ends it.\<close>

fun extract_loop :: "string list list \<Rightarrow> string \<Rightarrow> string \<Rightarrow> string" where
  "extract_loop [] video_url videoId = videoId"
| "extract_loop (pattern # rest) video_url videoId =
     (case regex_match pattern video_url of
        Some grp \<Rightarrow> grp
      | None \<Rightarrow> extract_loop rest video_url videoId)"

text \<open>\<^verbatim>\<open>/^[a-zA-Z0-9_-]{11}$/.test(videoId)\<close>.\<close>

definition test_id :: "string \<Rightarrow> bool" where
  "test_id videoId = (length videoId = 11 \<and> list_all is_id_char videoId)"

subsection \<open>The handler\<close>

text \<open>
  A thrown value, as the handler's \<^verbatim>\<open>catch\<close> blocks read it: an instance of \<^verbatim>\<open>Error\<close>, whose
  message they report, or anything else, reported as \<^verbatim>\<open>Unknown error\<close>.
\<close>

datatype thrown = Thrown js_error | ThrownOther

fun thrown_msg :: "thrown \<Rightarrow> string" where
  "thrown_msg (Thrown e) = message e"
| "thrown_msg ThrownOther = ''Unknown error''"

record existing_row =
  ex_id :: string
  ex_status :: string
  ex_text :: "string option"

record insert_row =
  r_user_id :: string
  r_video_id :: string
  r_video_title :: string
  r_language :: string
  r_source_kind :: string
  r_status :: string
  r_text :: string
  r_created_at :: string
  r_updated_at :: string

record caption_data =
  cap_text :: string
  cap_segments :: json
  cap_language :: string
  cap_source_kind :: string

text \<open>
  What the handler does to the database and the network, in the order it does it. The
  first four are accesses to the database (the lookup of the user's preferred language
  is given the database client), the other two are fetches from YouTube.
\<close>

datatype action =
    PreferredLanguageRead string
  | SelectExisting string string
  | InsertRow insert_row
  | UpdateRow string "(string \<times> json) list"
  | TitleFetch string
  | CaptionsFetch string "string option"

text \<open>
  The collaborators, imported from modules outside these sources, as parameters: each
  gives the value the call returns, or the value it throws. The database client answers
  with a value or an error object and does not throw. \<open>clock k\<close> is what
  \<^verbatim>\<open>new Date().toISOString()\<close> gives at the \<open>k\<close>-th place the handler reads the time (0 the
  insert, 1 the update after success, 2 the update after failure).
\<close>

record collab =
  normalizeLanguageTag :: "string option \<Rightarrow> string option"
  getUserPreferredLanguage :: "string \<Rightarrow> thrown + string option"
  selectExisting :: "string \<Rightarrow> string \<Rightarrow> existing_row option"
  getVideoTitle :: "string \<Rightarrow> thrown + string option"
  insertRow :: "insert_row \<Rightarrow> thrown + string"
  fetchCaptionsWithRetry :: "string \<Rightarrow> string option \<Rightarrow> thrown + caption_data"
  updateRow :: "string \<Rightarrow> (string \<times> json) list \<Rightarrow> thrown option"
  clock :: "nat \<Rightarrow> string"

definition truthy_str :: "string option \<Rightarrow> bool" where
  "truthy_str s = (case s of None \<Rightarrow> False | Some x \<Rightarrow> x \<noteq> [])"

definition or_else :: "string option \<Rightarrow> string \<Rightarrow> string" where
  "or_else s d = (case s of None \<Rightarrow> d | Some x \<Rightarrow> if x = [] then d else x)"

text \<open>Steps 6 and 7, the inner \<^verbatim>\<open>try\<close>: fetch the captions and store them, or mark the row
  failed (the result of that last update is not looked at).\<close>

definition transcribe_row ::
  "collab \<Rightarrow> string \<Rightarrow> string option \<Rightarrow> string \<Rightarrow> string option \<Rightarrow> envelope \<times> action list" where
  "transcribe_row c videoId effectiveLanguage newId videoTitle =
     (let lang = (if truthy_str effectiveLanguage then effectiveLanguage else None);
          failed = (\<lambda>processError.
             let fields = [(''status'', JStr ''failed''), (''updated_at'', JStr (clock c 2)),
                           (''error'', JStr (thrown_msg processError))]
             in (error_result (''Failed to fetch captions: '' @ thrown_msg processError),
                 [UpdateRow newId fields]))
      in case fetchCaptionsWithRetry c videoId lang of
           Inl processError \<Rightarrow>
             (let (env, acts) = failed processError in (env, CaptionsFetch videoId lang # acts))
         | Inr captionData \<Rightarrow>
             (let fields = [(''status'', JStr ''succeeded''), (''text'', JStr (cap_text captionData)),
                            (''segments'', cap_segments captionData),
                            (''language'', JStr (cap_language captionData)),
                            (''source_kind'',
                               JStr (if cap_source_kind captionData = ''manual'' then ''manual'' else ''auto'')),
                            (''updated_at'', JStr (clock c 1))]
              in case updateRow c newId fields of
                   Some updateError \<Rightarrow>
                     (let (env, acts) = failed updateError
                      in (env, CaptionsFetch videoId lang # UpdateRow newId fields # acts))
                 | None \<Rightarrow>
                     (text_result (''Transcript created successfully. ID: '' @ newId @ ''. Title: ''
                                   @ or_else videoTitle ''Unknown''),
                      [CaptionsFetch videoId lang, UpdateRow newId fields])))"

text \<open>
  Steps 3 to 5 of the outer \<^verbatim>\<open>try\<close>, reached with the effective language; a value thrown
  here is reported by the outer \<^verbatim>\<open>catch\<close>.
\<close>

definition create_row ::
  "collab \<Rightarrow> string \<Rightarrow> string \<Rightarrow> string option \<Rightarrow> envelope \<times> action list" where
  "create_row c userId videoId effectiveLanguage =
     (let proceed =
            (case getVideoTitle c videoId of
               Inl err \<Rightarrow>
                 (error_result (''Failed to create transcript: '' @ thrown_msg err),
                  [SelectExisting userId videoId, TitleFetch videoId])
             | Inr videoTitle \<Rightarrow>
                 (let nowIso = clock c 0;
                      row = \<lparr> r_user_id = userId, r_video_id = videoId,
                              r_video_title = or_else videoTitle ''Unknown Title'',
                              r_language = or_else effectiveLanguage ''en'',
                              r_source_kind = ''auto'', r_status = ''processing'', r_text = [],
                              r_created_at = nowIso, r_updated_at = nowIso \<rparr>
                  in case insertRow c row of
                       Inl insertError \<Rightarrow>
                         (error_result (''Failed to create transcript: '' @ thrown_msg insertError),
                          [SelectExisting userId videoId, TitleFetch videoId, InsertRow row])
                     | Inr newId \<Rightarrow>
                         (let (env, acts) = transcribe_row c videoId effectiveLanguage newId videoTitle
                          in (env, [SelectExisting userId videoId, TitleFetch videoId, InsertRow row] @ acts))))
      in case selectExisting c userId videoId of
           None \<Rightarrow> proceed
         | Some existing \<Rightarrow>
             if ex_status existing = ''succeeded'' \<and> truthy_str (ex_text existing)
             then (text_result (''Transcript for video '' @ videoId @ '' already exists. ID: ''
                                @ ex_id existing),
                   [SelectExisting userId videoId])
             else proceed)"

text \<open>
  The handler of \<^verbatim>\<open>create_transcript\<close>. Its first statement, \<^verbatim>\<open>createServiceClient()\<close>,
  makes the database client from the configuration; it is taken to succeed, and it reads
  nothing from the database. The second component of the result is what the call did,
  oldest first.
\<close>

definition create_transcript ::
  "collab \<Rightarrow> string \<Rightarrow> string \<Rightarrow> string option \<Rightarrow> envelope \<times> action list" where
  "create_transcript c userId video_url language =
     (let videoId = extract_loop patterns video_url video_url
      in if \<not> test_id videoId then (error_result ''Invalid YouTube URL or ID.'', [])
         else
           (let effectiveLanguage0 =
                  (if truthy_str language then normalizeLanguageTag c language else None)
            in if \<not> truthy_str effectiveLanguage0
               then
                 (case getUserPreferredLanguage c userId of
                    Inl err \<Rightarrow>
                      (error_result (''Failed to create transcript: '' @ thrown_msg err),
                       [PreferredLanguageRead userId])
                  | Inr preferred \<Rightarrow>
                      (let (env, acts) = create_row c userId videoId (normalizeLanguageTag c preferred)
                       in (env, PreferredLanguageRead userId # acts)))
               else create_row c userId videoId effectiveLanguage0))"

text \<open>Collaborators for a concrete run: an empty library, a title, captions that arrive.\<close>

definition sample_collab :: collab where
  "sample_collab =
     \<lparr> normalizeLanguageTag = (\<lambda>l. l),
       getUserPreferredLanguage = (\<lambda>u. Inr (Some ''en'')),
       selectExisting = (\<lambda>u v. None),
       getVideoTitle = (\<lambda>v. Inr (Some ''Me at the zoo'')),
       insertRow = (\<lambda>r. Inr ''row-1''),
       fetchCaptionsWithRetry = (\<lambda>v l.
          Inr \<lparr> cap_text = ''All right'', cap_segments = JArr [], cap_language = ''en'',
                cap_source_kind = ''auto'' \<rparr>),
       updateRow = (\<lambda>i f. None),
       clock = (\<lambda>k. ''2024-01-01T00:00:00.000Z'') \<rparr>"

section \<open>The HTTP client (\<^verbatim>\<open>http-client.ts\<close>)\<close>

text \<open>
  One call of \<^verbatim>\<open>fetch\<close>: the URL (address and search parameters, in the order they were
  set), method, headers, body and timeout. A response is read through its status, status
  text and body; \<open>res_text = None\<close> stands for a body whose reading throws.
\<close>

record fetch_call =
  f_url :: string
  f_search :: "(string \<times> string) list"
  f_method :: string
  f_headers :: "(string \<times> string) list"
  f_body :: "string option"
  f_timeoutMs :: nat

record response =
  res_status :: nat
  res_statusText :: string
  res_text :: "string option"

text \<open>
  The platform, as parameters: whether \<^verbatim>\<open>new URL(s)\<close> accepts \<open>s\<close>; what a fetch answers or
  rejects with; \<^verbatim>\<open>JSON.parse\<close> (\<open>None\<close> when it throws); \<^verbatim>\<open>String.prototype.trim\<close>;
  \<^verbatim>\<open>encodeURIComponent\<close> (which throws on a lone surrogate); and, for two fetches in flight
  at once that both fail, whether the second fails first.
\<close>

record platform =
  URL_valid :: "string \<Rightarrow> bool"
  fetch :: "fetch_call \<Rightarrow> js_error + response"
  JSON_parse :: "string \<Rightarrow> json option"
  trim :: "string \<Rightarrow> string"
  encodeURIComponent :: "string \<Rightarrow> js_error + string"
  second_fails_first :: bool

type_synonym 'a io = "(js_error + 'a) \<times> fetch_call list"

text \<open>\<^verbatim>\<open>String(v)\<close> on a JSON value.\<close>

fun js_String :: "json \<Rightarrow> string" where
  "js_String JNull = ''null''"
| "js_String (JBool b) = (if b then ''true'' else ''false'')"
| "js_String (JNum n) = n"
| "js_String (JStr s) = s"
| "js_String (JArr xs) = join '','' (map (\<lambda>x. if x = JNull then [] else js_String x) xs)"
| "js_String (JObj ps) = ''[object Object]''"

definition joinUrl :: "string \<Rightarrow> string \<Rightarrow> string" where
  "joinUrl baseUrl path =
     (let base = rev (dropWhile (\<lambda>c. c = CHR ''/'') (rev baseUrl));
          p = (if take 1 path = ''/'' then path else ''/'' @ path)
      in base @ p)"

definition response_ok :: "response \<Rightarrow> bool" where
  "response_ok res = (200 \<le> res_status res \<and> res_status res \<le> 299)"

definition readBodyTextSafe :: "response \<Rightarrow> string" where
  "readBodyTextSafe res = (case res_text res of Some t \<Rightarrow> t | None \<Rightarrow> [])"

record request_params =
  rq_baseUrl :: string
  rq_path :: string
  rq_method :: string
  rq_headers :: "(string \<times> string) list"
  rq_query :: "(string \<times> json option) list option"
  rq_body :: "json option"
  rq_timeoutMs :: nat

text \<open>The search parameters: the entries of the query that are neither \<^verbatim>\<open>undefined\<close> nor \<^verbatim>\<open>null\<close>.\<close>

fun search_params :: "(string \<times> json option) list \<Rightarrow> (string \<times> string) list" where
  "search_params [] = []"
| "search_params ((k, None) # q) = search_params q"
| "search_params ((k, Some v) # q) =
     (if v = JNull then search_params q else (k, js_String v) # search_params q)"

definition requestJson :: "platform \<Rightarrow> request_params \<Rightarrow> json io" where
  "requestJson P params =
     (let address = joinUrl (rq_baseUrl params) (rq_path params)
      in if \<not> URL_valid P address then (Inl (TypeError ''Invalid URL''), [])
         else
           (let call = \<lparr> f_url = address,
                          f_search = (case rq_query params of None \<Rightarrow> [] | Some q \<Rightarrow> search_params q),
                          f_method = rq_method params,
                          f_headers = rq_headers params,
                          f_body = (if rq_method params = ''POST''
                                    then Some (JSON_stringify (case rq_body params of None \<Rightarrow> JObj [] | Some b \<Rightarrow> b))
                                    else None),
                          f_timeoutMs = rq_timeoutMs params \<rparr>
            in case fetch P call of
                 Inl e \<Rightarrow> (Inl e, [call])
               | Inr res \<Rightarrow>
                   if \<not> response_ok res
                   then (Inl (HttpError (''HTTP '' @ show_nat (res_status res) @ '' '' @ res_statusText res)
                                (res_status res) (readBodyTextSafe res)),
                         [call])
                   else
                     (let txt = readBodyTextSafe res
                      in if trim P txt = [] then (Inr JNull, [call])
                         else (case JSON_parse P txt of
                                 Some v \<Rightarrow> (Inr v, [call])
                               | None \<Rightarrow> (Inr (JStr txt), [call])))))"

section \<open>The tool registry and the dispatch (\<^verbatim>\<open>mcp.ts\<close>)\<close>

record config =
  cfg_baseUrl :: string
  cfg_apiKey :: string
  cfg_timeoutMs :: nat
  cfg_debug :: bool

definition authHeaders :: "string \<Rightarrow> (string \<times> string) list" where
  "authHeaders apiKey =
     [(''Accept'', ''application/json''),
      (''Content-Type'', ''application/json''),
      (''Authorization'', ''Bearer '' @ apiKey)]"

text \<open>
  \<open>callYtsmV2\<close>: \<open>args\<close> is the body of a POST (\<^verbatim>\<open>{}\<close> when absent), \<open>query\<close> the query of a
  GET.
\<close>

definition callYtsmV2 ::
  "platform \<Rightarrow> config \<Rightarrow> string \<Rightarrow> string \<Rightarrow> json option \<Rightarrow> (string \<times> json option) list option \<Rightarrow> json io" where
  "callYtsmV2 P cfg path method args query =
     requestJson P
       \<lparr> rq_baseUrl = cfg_baseUrl cfg,
         rq_path = path,
         rq_method = method,
         rq_headers = authHeaders (cfg_apiKey cfg),
         rq_query = (if method = ''GET'' then query else None),
         rq_body = (if method = ''POST'' then Some (case args of None \<Rightarrow> JObj [] | Some a \<Rightarrow> a) else None),
         rq_timeoutMs = cfg_timeoutMs cfg \<rparr>"

definition jsonText :: "json \<Rightarrow> string" where
  "jsonText v = stringify ''  '' [] v"

record err_text =
  et_message :: string
  et_details :: "json option"

definition errText :: "platform \<Rightarrow> js_error \<Rightarrow> err_text" where
  "errText P error =
     (case error of
        HttpError m st bodyText \<Rightarrow>
          \<lparr> et_message = m,
            et_details = (if bodyText \<noteq> []
                          then (case JSON_parse P bodyText of Some v \<Rightarrow> Some v | None \<Rightarrow> Some (JStr bodyText))
                          else None) \<rparr>
      | Error m \<Rightarrow> \<lparr> et_message = m, et_details = None \<rparr>
      | TypeError m \<Rightarrow> \<lparr> et_message = m, et_details = None \<rparr>)"

subsection \<open>The handlers\<close>

text \<open>
  An argument object is the list of its properties; \<open>get_prop args k\<close> is \<^verbatim>\<open>args.k\<close>, with \<open>None\<close>
  for \<^verbatim>\<open>undefined\<close>. (None of the keys the handlers read is a property of
  \<^verbatim>\<open>Object.prototype\<close>.)
\<close>

type_synonym args = "(string \<times> json) list"

definition get_prop :: "args \<Rightarrow> string \<Rightarrow> json option" where
  "get_prop a k = map_of a k"

text \<open>\<^verbatim>\<open>typeof v === 'number' ? v : d\<close>, and \<^verbatim>\<open>typeof v === 'string' ? v : undefined\<close>.\<close>

definition number_or :: "json option \<Rightarrow> string \<Rightarrow> json option" where
  "number_or v d = (case v of Some (JNum n) \<Rightarrow> Some (JNum n) | _ \<Rightarrow> Some (JNum d))"

definition string_only :: "json option \<Rightarrow> json option" where
  "string_only v = (case v of Some (JStr s) \<Rightarrow> Some (JStr s) | _ \<Rightarrow> None)"

definition transcribe_v2_handler :: "platform \<Rightarrow> args \<Rightarrow> config \<Rightarrow> json io" where
  "transcribe_v2_handler P a cfg = callYtsmV2 P cfg ''/api/v2/transcribe'' ''POST'' (Some (JObj a)) None"

definition list_transcripts_handler :: "platform \<Rightarrow> args \<Rightarrow> config \<Rightarrow> json io" where
  "list_transcripts_handler P a cfg =
     callYtsmV2 P cfg ''/api/v1/history'' ''GET'' None
       (Some [(''limit'', number_or (get_prop a ''limit'') ''10''),
              (''page'', number_or (get_prop a ''page'') ''1''),
              (''search'', string_only (get_prop a ''search'')),
              (''status'', string_only (get_prop a ''status'')),
              (''language'', string_only (get_prop a ''language'')),
              (''include_segments'',
                 (if get_prop a ''include_segments'' = Some (JBool True) then Some (JStr ''true'') else None))])"

definition get_transcript_handler :: "platform \<Rightarrow> args \<Rightarrow> config \<Rightarrow> json io" where
  "get_transcript_handler P a cfg =
     (let videoId = (case get_prop a ''video_id'' of
                       None \<Rightarrow> []
                     | Some v \<Rightarrow> if v = JNull then [] else js_String v)
      in case encodeURIComponent P videoId of
           Inl e \<Rightarrow> (Inl e, [])
         | Inr encoded \<Rightarrow>
             callYtsmV2 P cfg (''/api/v1/transcripts/'' @ encoded) ''GET'' None
               (Some [(''id'', string_only (get_prop a ''id'')),
                      (''language'', string_only (get_prop a ''language'')),
                      (''source'', string_only (get_prop a ''source'')),
                      (''include_timestamps'',
                         (if get_prop a ''include_timestamps'' = Some (JBool False)
                          then Some (JStr ''false'') else None))]))"

text \<open>
  \<^verbatim>\<open>x && typeof x === 'object' ? x : {}\<close> read as a record of properties (an array has none
  of the properties read), and \<^verbatim>\<open>v ?? d\<close> on a property.
\<close>

definition as_record :: "json \<Rightarrow> args" where
  "as_record v = (case v of JObj ps \<Rightarrow> ps | _ \<Rightarrow> [])"

definition nullish_or :: "json option \<Rightarrow> json \<Rightarrow> json" where
  "nullish_or v d = (case v of None \<Rightarrow> d | Some x \<Rightarrow> if x = JNull then d else x)"

text \<open>
  \<open>get_stats\<close> starts both requests before it awaits either (\<^verbatim>\<open>Promise.all\<close>), so both
  fetches are made whenever their URLs are valid. When both fail, the error of the one
  that fails first is thrown: a request that never reached its fetch fails at once.
\<close>

definition get_stats_handler :: "platform \<Rightarrow> args \<Rightarrow> config \<Rightarrow> json io" where
  "get_stats_handler P a cfg =
     (let (creditsRes, calls1) = callYtsmV2 P cfg ''/api/v1/credits'' ''GET'' None None;
          (historyRes, calls2) =
             callYtsmV2 P cfg ''/api/v1/history'' ''GET'' None
               (Some [(''limit'', Some (JNum ''1'')), (''page'', Some (JNum ''1''))])
      in case (creditsRes, historyRes) of
           (Inl e1, Inl e2) \<Rightarrow>
             (Inl (if calls1 = [] then e1
                   else if calls2 = [] then e2
                   else if second_fails_first P then e2 else e1),
              calls1 @ calls2)
         | (Inl e1, Inr h) \<Rightarrow> (Inl e1, calls1 @ calls2)
         | (Inr c, Inl e2) \<Rightarrow> (Inl e2, calls1 @ calls2)
         | (Inr c, Inr h) \<Rightarrow>
             (let credits = as_record c;
                  history = as_record h;
                  total = (case get_prop history ''pagination'' of
                             Some (JObj pagination) \<Rightarrow> get_prop pagination ''total''
                           | _ \<Rightarrow> None)
              in (Inr (JObj [(''credits'', nullish_or (get_prop credits ''credits'') (JNum ''0'')),
                             (''transcripts_total'', nullish_or total (JNum ''0'')),
                             (''plan'', nullish_or (get_prop credits ''plan'') (JStr ''free'')),
                             (''rate_limit'', nullish_or (get_prop credits ''rate_limit'') (JNum ''100''))]),
                  calls1 @ calls2)))"

fun strings_of :: "json list \<Rightarrow> string list" where
  "strings_of [] = []"
| "strings_of (JStr s # xs) = s # strings_of xs"
| "strings_of (x # xs) = strings_of xs"

definition delete_usage :: js_error where
  "delete_usage =
     Error (''Provide '' @ [CHR 0x60] @ ''ids'' @ [CHR 0x60] @ '' or '' @ [CHR 0x60] @ ''video_id''
            @ [CHR 0x60] @ '' to delete transcripts.'')"

definition delete_transcript_handler :: "platform \<Rightarrow> args \<Rightarrow> config \<Rightarrow> json io" where
  "delete_transcript_handler P a cfg =
     (let ids0 = (case get_prop a ''ids'' of Some (JArr xs) \<Rightarrow> strings_of xs | _ \<Rightarrow> []);
          videoId = (case get_prop a ''video_id'' of Some (JStr s) \<Rightarrow> trim P s | _ \<Rightarrow> []);
          bulk = (\<lambda>ids calls.
             if ids = [] then (Inl delete_usage, calls)
             else (let (r, calls') =
                         callYtsmV2 P cfg ''/api/v1/transcripts/bulk-delete'' ''POST''
                           (Some (JObj [(''ids'', JArr (map JStr ids))])) None
                   in (r, calls @ calls')))
      in if ids0 = [] \<and> videoId \<noteq> []
         then
           (case encodeURIComponent P videoId of
              Inl e \<Rightarrow> (Inl e, [])
            | Inr encoded \<Rightarrow>
                (case callYtsmV2 P cfg (''/api/v1/transcripts/'' @ encoded) ''GET'' None None of
                   (Inl e, calls) \<Rightarrow> (Inl e, calls)
                 | (Inr transcript, calls) \<Rightarrow>
                     (let transcriptId = (case get_prop (as_record transcript) ''id'' of
                                            Some (JStr s) \<Rightarrow> s
                                          | _ \<Rightarrow> [])
                      in bulk (if transcriptId \<noteq> [] then [transcriptId] else ids0) calls)))
         else bulk ids0 [])"

subsection \<open>The registry\<close>

record tool_schema =
  s_name :: string
  s_description :: string
  s_inputSchema :: json

record tool =
  t_schema :: tool_schema
  t_handler :: "platform \<Rightarrow> args \<Rightarrow> config \<Rightarrow> json io"

definition described :: "string \<Rightarrow> string \<Rightarrow> json" where
  "described ty description = JObj [(''type'', JStr ty), (''description'', JStr description)]"

definition transcribe_v2_schema :: tool_schema where
  "transcribe_v2_schema =
     \<lparr> s_name = ''transcribe_v2'',
       s_description =
         ''POST /api/v2/transcribe. Fast caption-based transcript (no ASR). Use manual or auto captions only.'',
       s_inputSchema =
         JObj [(''type'', JStr ''object''),
               (''properties'',
                  JObj [(''video'', described ''string'' ''YouTube video URL or video ID''),
                        (''language'', described ''string'' ''Language tag (e.g. en, en-US)''),
                        (''source'',
                           JObj [(''type'', JStr ''string''),
                                 (''enum'', JArr [JStr ''auto'', JStr ''manual'']),
                                 (''description'',
                                    JStr ''Caption source: auto (manual first, fallback to auto) or manual only'')]),
                        (''format'',
                           JObj [(''type'', JStr ''object''),
                                 (''properties'',
                                    JObj [(''timestamp'', JObj [(''type'', JStr ''boolean'')]),
                                          (''paragraphs'', JObj [(''type'', JStr ''boolean'')]),
                                          (''words'', JObj [(''type'', JStr ''boolean'')])]),
                                 (''additionalProperties'', JBool False)])]),
               (''required'', JArr [JStr ''video'']),
               (''additionalProperties'', JBool False)] \<rparr>"

definition list_transcripts_schema :: tool_schema where
  "list_transcripts_schema =
     \<lparr> s_name = ''list_transcripts'',
       s_description =
         ''GET /api/v1/history. List or search user transcripts. Use search to find by video id, title, or transcript content.'',
       s_inputSchema =
         JObj [(''type'', JStr ''object''),
               (''properties'',
                  JObj [(''search'', described ''string'' ''Search by video id, video title, or transcript text''),
                        (''limit'', described ''number'' ''How many to return (default 10)''),
                        (''page'', described ''number'' ''Page number (default 1)''),
                        (''status'',
                           JObj [(''type'', JStr ''string''),
                                 (''enum'', JArr [JStr ''all'', JStr ''queued'', JStr ''processing'',
                                                  JStr ''succeeded'', JStr ''failed''])]),
                        (''language'',
                           described ''string''
                             (''Language filter, e.g. '' @ [CHR 0x27] @ ''en'' @ [CHR 0x27])),
                        (''include_segments'', described ''boolean'' ''Include transcript segments in response'')]),
               (''additionalProperties'', JBool False)] \<rparr>"

definition get_transcript_schema :: tool_schema where
  "get_transcript_schema =
     \<lparr> s_name = ''get_transcript'',
       s_description = ''GET /api/v1/transcripts/{video_id}. Get full transcript for a video.'',
       s_inputSchema =
         JObj [(''type'', JStr ''object''),
               (''properties'',
                  JObj [(''video_id'', JObj [(''type'', JStr ''string'')]),
                        (''id'',
                           described ''string'' ''Optional transcript record id if you want a specific version''),
                        (''language'', JObj [(''type'', JStr ''string'')]),
                        (''source'',
                           JObj [(''type'', JStr ''string''),
                                 (''enum'', JArr [JStr ''auto'', JStr ''manual'', JStr ''asr''])]),
                        (''include_timestamps'', JObj [(''type'', JStr ''boolean'')])]),
               (''required'', JArr [JStr ''video_id'']),
               (''additionalProperties'', JBool False)] \<rparr>"

definition get_stats_schema :: tool_schema where
  "get_stats_schema =
     \<lparr> s_name = ''get_stats'',
       s_description = ''Get stats: credits left, transcripts created, plan, rate limit.'',
       s_inputSchema =
         JObj [(''type'', JStr ''object''),
               (''properties'', JObj []),
               (''additionalProperties'', JBool False)] \<rparr>"

definition delete_transcript_schema :: tool_schema where
  "delete_transcript_schema =
     \<lparr> s_name = ''delete_transcript'',
       s_description = ''POST /api/v1/transcripts/bulk-delete. Delete transcripts by ids or by video_id.'',
       s_inputSchema =
         JObj [(''type'', JStr ''object''),
               (''properties'',
                  JObj [(''ids'',
                           JObj [(''type'', JStr ''array''),
                                 (''items'', JObj [(''type'', JStr ''string'')]),
                                 (''description'', JStr ''Transcript record ids to delete'')]),
                        (''video_id'',
                           described ''string'' ''Convenience delete by video id (resolves id first)'')]),
               (''additionalProperties'', JBool False)] \<rparr>"

definition toolRegistry :: "(string \<times> tool) list" where
  "toolRegistry =
     [(''transcribe_v2'', \<lparr> t_schema = transcribe_v2_schema, t_handler = transcribe_v2_handler \<rparr>),
      (''list_transcripts'', \<lparr> t_schema = list_transcripts_schema, t_handler = list_transcripts_handler \<rparr>),
      (''get_transcript'', \<lparr> t_schema = get_transcript_schema, t_handler = get_transcript_handler \<rparr>),
      (''get_stats'', \<lparr> t_schema = get_stats_schema, t_handler = get_stats_handler \<rparr>),
      (''delete_transcript'', \<lparr> t_schema = delete_transcript_schema, t_handler = delete_transcript_handler \<rparr>)]"

definition listTools :: "tool_schema list" where
  "listTools = map (\<lambda>(name, t). t_schema t) toolRegistry"

text \<open>
  \<^verbatim>\<open>toolRegistry\<close> is an object literal, so \<^verbatim>\<open>toolRegistry[name]\<close> also finds what the object
  inherits: the properties of \<^verbatim>\<open>Object.prototype\<close>. Each of them is a function (for
  \<^verbatim>\<open>__proto__\<close>, the prototype object itself), hence truthy, and none has a \<^verbatim>\<open>handler\<close>.
\<close>

definition Object_prototype_properties :: "string list" where
  "Object_prototype_properties =
     [''constructor'', ''__defineGetter__'', ''__defineSetter__'', ''hasOwnProperty'',
      ''__lookupGetter__'', ''__lookupSetter__'', ''isPrototypeOf'', ''propertyIsEnumerable'',
      ''toString'', ''valueOf'', ''__proto__'', ''toLocaleString'']"

datatype registry_entry = Registered tool | Inherited | Absent

definition registry_lookup :: "string \<Rightarrow> registry_entry" where
  "registry_lookup name =
     (case map_of toolRegistry name of
        Some t \<Rightarrow> Registered t
      | None \<Rightarrow> if name \<in> set Object_prototype_properties then Inherited else Absent)"

text \<open>
  \<open>callTool\<close>. An absent entry is the \<^verbatim>\<open>Unknown tool\<close> error; calling the missing
  \<^verbatim>\<open>handler\<close> of an inherited entry is the runtime's type error. \<open>or_empty a\<close> is
  \<^verbatim>\<open>a ?? {}\<close>.
\<close>

definition or_empty :: "args option \<Rightarrow> args" where
  "or_empty a = (case a of None \<Rightarrow> [] | Some x \<Rightarrow> x)"

definition callTool :: "platform \<Rightarrow> config \<Rightarrow> string \<Rightarrow> args option \<Rightarrow> json io" where
  "callTool P cfg name a =
     (case registry_lookup name of
        Absent \<Rightarrow> (Inl (Error (''Unknown tool: '' @ name)), [])
      | Inherited \<Rightarrow> (Inl (TypeError ''tool.handler is not a function''), [])
      | Registered t \<Rightarrow> t_handler t P (or_empty a) cfg)"

text \<open>
  The handler that \<^verbatim>\<open>createMcpServer\<close> registers for \<^verbatim>\<open>CallToolRequestSchema\<close>, the
  \<^verbatim>\<open>tools/call\<close> requests. In the error object \<^verbatim>\<open>details\<close> is left out by
  \<^verbatim>\<open>JSON.stringify\<close> when it is \<^verbatim>\<open>undefined\<close>.
\<close>

definition error_object :: "err_text \<Rightarrow> json" where
  "error_object e =
     JObj ((''error'', JStr (et_message e))
           # (case et_details e of None \<Rightarrow> [] | Some d \<Rightarrow> [(''details'', d)]))"

definition CallToolRequest_handler :: "platform \<Rightarrow> config \<Rightarrow> string \<Rightarrow> args option \<Rightarrow> envelope \<times> fetch_call list" where
  "CallToolRequest_handler P cfg name arguments =
     (case callTool P cfg name (Some (or_empty arguments)) of
        (Inr result, calls) \<Rightarrow>
          (\<lparr> content = [\<lparr> c_type = ''text'',
                          c_text = (case result of JStr s \<Rightarrow> s | _ \<Rightarrow> jsonText result) \<rparr>],
             isError = None \<rparr>,
           calls)
      | (Inl error, calls) \<Rightarrow>
          (\<lparr> content = [\<lparr> c_type = ''text'', c_text = jsonText (error_object (errText P error)) \<rparr>],
             isError = Some True \<rparr>,
           calls))"








section \<open>Properties of the session transport\<close>

text \<open>
  C6. The write side respects the sink guard. \<^verbatim>\<open>start()\<close> succeeds exactly when the
  transport holds a writer, and fails with the not-initialized error otherwise. Without a
  writer (never acquired, or released by a successful \<^verbatim>\<open>close()\<close>), \<^verbatim>\<open>send\<close> and
  \<^verbatim>\<open>sendEndpoint\<close> fail with the channel-closed error, leave the transport as it is and
  write nothing. Whenever either of them writes a chunk, the writer is present and its
  stream writable.
\<close>

theorem sink_guard:
  "(start t = Inr () \<longleftrightarrow> writer t \<noteq> None)
   \<and> (writer t = None \<longrightarrow>
        start t = Inl NotInitialized
        \<and> send t msg = (Inl ChannelClosed, t, [])
        \<and> sendEndpoint t address = (Inl ChannelClosed, t, []))
   \<and> (\<forall>t' fx. close t = (Inr (), t', fx) \<longrightarrow>
        start t' = Inl NotInitialized
        \<and> send t' msg = (Inl ChannelClosed, t', [])
        \<and> sendEndpoint t' address = (Inl ChannelClosed, t', []))
   \<and> (\<forall>p. SinkWrite p \<in> set (snd (snd (send t msg))) \<union> set (snd (snd (sendEndpoint t address)))
        \<longrightarrow> writer t = Some Writable)"
  by (auto simp: start_def send_def sendEndpoint_def close_def writer_write_def writer_close_def Let_def
      split: option.splits sum.splits stream_state.splits)

theorem sink_guard_witness:
  "writer new_transport = None
   \<and> start new_transport = Inl NotInitialized
   \<and> send new_transport (JStr ''ping'') = (Inl ChannelClosed, new_transport, [])
   \<and> sendEndpoint new_transport ''/api/mcp?sessionId=s1'' = (Inl ChannelClosed, new_transport, [])
   \<and> start (initResponseStream new_transport) = Inr ()
   \<and> close (initResponseStream new_transport) = (Inr (), new_transport, [SinkClose])
   \<and> SinkWrite (''event: endpoint'' @ ''\<newline>'' @ ''data: /api/mcp?sessionId=s1'' @ ''\<newline>'' @ ''\<newline>'')
        \<in> set (snd (snd (sendEndpoint (initResponseStream new_transport) ''/api/mcp?sessionId=s1'')))
   \<and> writer (initResponseStream new_transport) = Some Writable"
  using sink_guard [of new_transport "JStr ''ping''" "''/api/mcp?sessionId=s1''"]
    sink_guard [of "initResponseStream new_transport" "JStr ''ping''" "''/api/mcp?sessionId=s1''"]
  by (simp add: new_transport_def initResponseStream_def start_def close_def writer_close_def
      sendEndpoint_def writer_write_def)

text \<open>
  C7. \<^verbatim>\<open>close()\<close> is idempotent. On a transport whose sink is writable the call closes the
  sink once and drops the writer. After any successful \<^verbatim>\<open>close()\<close> the writer is gone, and
  a further \<^verbatim>\<open>close()\<close> succeeds, changes nothing and closes nothing.
\<close>

theorem close_idempotent:
  "(writer t = Some Writable \<longrightarrow> close t = (Inr (), t\<lparr> writer := None \<rparr>, [SinkClose]))
   \<and> (\<forall>t' fx. close t = (Inr (), t', fx) \<longrightarrow> writer t' = None \<and> close t' = (Inr (), t', []))"
  by (auto simp: close_def writer_close_def split: option.splits sum.splits stream_state.splits)

theorem close_idempotent_witness:
  "writer (initResponseStream new_transport) = Some Writable
   \<and> close (initResponseStream new_transport) = (Inr (), new_transport, [SinkClose])
   \<and> close new_transport = (Inr (), new_transport, [])"
  using close_idempotent [of "initResponseStream new_transport"]
  by (simp add: initResponseStream_def new_transport_def)



section \<open>Properties of the session directory and the message endpoint\<close>

lemma foldl_dir_step_absent:
  "sid \<notin> set (opened_ids evs) \<Longrightarrow> m sid = None \<Longrightarrow> foldl dir_step m evs sid = None"
proof (induction evs arbitrary: m)
  case Nil
  then show ?case by simp
next
  case (Cons ev evs)
  then show ?case
    by (cases ev) (auto simp: activeTransports_set_def activeTransports_delete_def)
qed

text \<open>
  C4. The session directory is a map keyed by session id. After any history of channel
  opens and closes: registering \<open>t\<close> under \<open>sid\<close> and then resolving \<open>sid\<close> gives \<open>t\<close>;
  after the removal of \<open>sid\<close>, resolving it finds nothing; and an id that no channel-open
  of the history registered resolves to nothing.
\<close>

theorem directory_lifecycle:
  "activeTransports_get (activeTransports_set (dir_after evs) sid t) sid = Some t
   \<and> activeTransports_get (activeTransports_delete (dir_after evs) sid) sid = None
   \<and> (sid \<notin> set (opened_ids evs) \<longrightarrow> activeTransports_get (dir_after evs) sid = None)
   \<and> activeTransports_get (dir_after (evs @ [ChannelOpen sid t])) sid = Some t
   \<and> activeTransports_get (dir_after (evs @ [ChannelOpen sid t, ChannelClose sid])) sid = None"
  by (simp add: activeTransports_get_def activeTransports_set_def activeTransports_delete_def
      dir_after_def foldl_dir_step_absent)

theorem directory_lifecycle_witness:
  "''s2'' \<notin> set (opened_ids [ChannelOpen ''s1'' new_transport, ChannelClose ''s1''])
   \<and> activeTransports_get (dir_after [ChannelOpen ''s1'' new_transport, ChannelClose ''s1'']) ''s2'' = None
   \<and> activeTransports_get
        (activeTransports_set (dir_after [ChannelOpen ''s1'' new_transport, ChannelClose ''s1''])
           ''s2'' (initResponseStream new_transport)) ''s2''
       = Some (initResponseStream new_transport)"
  using directory_lifecycle
    [of "[ChannelOpen ''s1'' new_transport, ChannelClose ''s1'']" "''s2''" "initResponseStream new_transport"]
  by simp

text \<open>
  The statuses the message endpoint answers with. Without a credential it answers 401;
  with a credential the authenticator rejects, 500; with one it accepts (and a JSON
  body), 400 without a session id, 404 for an id the directory does not hold, and
  otherwise 202, or 500 when the message handler throws.
\<close>

lemma POST_status:
  "status (fst (POST auth dir req)) \<in> {202, 400, 401, 404, 500}"
  by (auto simp: POST_def respond_def split: option.splits sum.splits prod.splits)

lemma app_post_status:
  "status (fst (app_post auth dir h sid b)) \<in> {202, 400, 401, 404, 500}"
  by (auto simp: app_post_def respond_def split: option.splits sum.splits prod.splits)

lemma POST_absent_credential:
  "authorization req = None \<or> authorization req = Some [] \<Longrightarrow> status (fst (POST auth dir req)) = 401"
  by (auto simp: POST_def respond_def)

lemma POST_rejected_credential:
  "authorization req = Some authHeader \<Longrightarrow> authHeader \<noteq> [] \<Longrightarrow> auth authHeader = Inl e
     \<Longrightarrow> POST auth dir req = respond ''Internal Error'' 500 []"
  by (simp add: POST_def)

lemma POST_accepted_credential:
  "authorization req = Some authHeader \<Longrightarrow> authHeader \<noteq> [] \<Longrightarrow> auth authHeader = Inr user
     \<Longrightarrow> body req = Inr msg
     \<Longrightarrow> status (fst (POST auth dir req))
          = (case sessionId req of
               None \<Rightarrow> 400
             | Some sid \<Rightarrow>
                 if sid = [] then 400
                 else (case activeTransports_get dir sid of
                         None \<Rightarrow> 404
                       | Some t \<Rightarrow> if isl (fst (handlePostMessage t msg)) then 500 else 202))"
  by (auto simp: POST_def respond_def split: option.splits sum.splits prod.splits)

text \<open>
  C3. A POST with a credential that \<^verbatim>\<open>authenticateApiKey\<close> rejects is answered 500
  \<^verbatim>\<open>Internal Error\<close> by both message endpoints, not 401: the authenticator's exception is
  caught by the handler's catch-all. The request names a registered session and carries a
  JSON body, so nothing else is wrong with it.
\<close>

theorem post_invalid_credential:
  "POST sample_authenticateApiKey [''s1'' \<mapsto> initResponseStream new_transport]
      \<lparr> authorization = Some ''Bearer wrong-key'', sessionId = Some ''s1'', body = Inr JNull \<rparr>
     = (\<lparr> status = 500, sent = ''Internal Error'' \<rparr>, [])
   \<and> app_post sample_authenticateApiKey [''s1'' \<mapsto> initResponseStream new_transport]
      (Some ''Bearer wrong-key'') (Some ''s1'') JNull
     = (\<lparr> status = 500, sent = ''Internal Error'' \<rparr>, [])"
  by (simp add: POST_def app_post_def sample_authenticateApiKey_def respond_def)

section \<open>Properties of the transcript export\<close>










section \<open>Properties of \<^verbatim>\<open>create_transcript\<close>\<close>

lemma match_here_valid: "match_here literal s = Some grp \<Longrightarrow> test_id grp"
  by (auto simp: match_here_def test_id_def Let_def split: if_splits)

lemma alternatives_here_valid: "alternatives_here literals s = Some grp \<Longrightarrow> test_id grp"
  by (induction literals) (auto split: option.splits dest: match_here_valid)

lemma regex_match_valid: "regex_match literals s = Some grp \<Longrightarrow> test_id grp"
  by (induction s) (auto split: option.splits dest: alternatives_here_valid)

lemma extract_loop_no_match:
  "\<forall>pattern \<in> set ps. regex_match pattern video_url = None \<Longrightarrow> extract_loop ps video_url v = v"
  by (induction ps) auto

lemma extract_loop_invalid_iff:
  "\<not> test_id (extract_loop ps video_url v)
     \<longleftrightarrow> (\<forall>pattern \<in> set ps. regex_match pattern video_url = None) \<and> \<not> test_id v"
  by (induction ps) (auto split: option.splits dest: regex_match_valid)

text \<open>
  C9. When \<^verbatim>\<open>video_url\<close> matches none of the three URL patterns and is not itself eleven
  characters of \<^verbatim>\<open>[a-zA-Z0-9_-]\<close>, \<^verbatim>\<open>create_transcript\<close> returns the error envelope
  \<^verbatim>\<open>Invalid YouTube URL or ID.\<close> and has done nothing: no read, insert or update of the
  database and no fetch, whatever the collaborators would have answered. (By
  \<open>extract_loop_invalid_iff\<close> this is the only way to reach that return: a pattern that
  matches always yields a well-formed id.)
\<close>

theorem create_transcript_invalid:
  "(\<forall>pattern \<in> set patterns. regex_match pattern video_url = None) \<Longrightarrow> \<not> test_id video_url \<Longrightarrow>
     create_transcript c userId video_url language = (error_result ''Invalid YouTube URL or ID.'', [])"
  by (simp add: create_transcript_def extract_loop_no_match)

theorem create_transcript_invalid_witness:
  "map (\<lambda>pattern. regex_match pattern ''youtu.be/abc'') patterns = [None, None, None]
   \<and> \<not> test_id ''youtu.be/abc''
   \<and> create_transcript sample_collab ''u1'' ''youtu.be/abc'' None
       = (error_result ''Invalid YouTube URL or ID.'', [])"
proof -
  have a: "\<forall>pattern \<in> set patterns. regex_match pattern ''youtu.be/abc'' = None"
    by (simp add: patterns_def match_here_def is_id_char_def)
  have b: "\<not> test_id ''youtu.be/abc''"
    by (simp add: test_id_def)
  have "map (\<lambda>pattern. regex_match pattern ''youtu.be/abc'') patterns = [None, None, None]"
    using a by (simp add: patterns_def)
  then show ?thesis
    using b create_transcript_invalid [OF a b, of sample_collab "''u1''" None] by blast
qed

section \<open>Properties of the tool dispatch\<close>








text \<open>
  A name that the registry neither holds nor inherits is reported as the claim C5 says:
  the envelope is an error whose message is \<^verbatim>\<open>Unknown tool: \<close> followed by the name.
\<close>

lemma unknown_tool_reported:
  "registry_lookup name = Absent \<Longrightarrow>
     CallToolRequest_handler P cfg name arguments
       = (error_result (jsonText (JObj [(''error'', JStr (''Unknown tool: '' @ name))])), [])"
  by (simp add: CallToolRequest_handler_def callTool_def errText_def error_object_def error_result_def)

text \<open>
  C5. \<^verbatim>\<open>constructor\<close> is not a tool of the registry, yet calling it does not fail with
  \<^verbatim>\<open>Unknown tool: constructor\<close>: \<^verbatim>\<open>toolRegistry["constructor"]\<close> is the inherited
  \<^verbatim>\<open>Object\<close> function, the \<^verbatim>\<open>!tool\<close> test passes, and the call of its missing \<^verbatim>\<open>handler\<close>
  throws a type error. The envelope is an error whose message does not name the tool.
\<close>

theorem inherited_name_not_reported:
  "map_of toolRegistry ''constructor'' = None
   \<and> callTool P cfg ''constructor'' a = (Inl (TypeError ''tool.handler is not a function''), [])
   \<and> CallToolRequest_handler P cfg ''constructor'' arguments
       = (error_result (jsonText (JObj [(''error'', JStr ''tool.handler is not a function'')])), [])"
  by (simp add: CallToolRequest_handler_def callTool_def registry_lookup_def toolRegistry_def
      Object_prototype_properties_def errText_def error_object_def error_result_def)




end
